theory Spec2Isabelle
  imports Main
begin

section \<open>Values shared by the key-ring service and its callers\<close>

type_synonym chainId = string
type_synonym bytes = "nat list"

text \<open>The four lifecycle states of the key ring (enum \<open>KeyRingStatus\<close>).\<close>

datatype KeyRingStatus = NOTLOADED | EMPTY | LOCKED | UNLOCKED

text \<open>The states of the wallet as an account store sees it (enum \<open>WalletStatus\<close>).\<close>

datatype WalletStatus = Loading | Loaded | NotExist

text \<open>
  Every \<open>throw\<close> of the sources is a value of \<open>err\<close>. The sources throw plain
  \<open>Error\<close> objects told apart by their message; the constructor names follow the
  error taxonomy of the specification, the messages of the code are given beside them.
\<close>

datatype err =
    NoKeyError                  \<comment> \<open>"key doesn't exist"\<close>
  | AddressMismatchError        \<comment> \<open>"Invalid bech32 address"\<close>
  | NullConfigError             \<comment> \<open>"config is approved, but result config is null"\<close>
  | UserRejectedError           \<comment> \<open>the interaction collaborator rejected the request\<close>
  | OriginNotAllowedError       \<comment> \<open>thrown by the origin-permission check\<close>
  | ChainUnknownError           \<comment> \<open>the chain registry does not know the chain\<close>
  | KeyRingNotUnlockedError
  | CoinTypeAlreadySetError
  | WrongPassword
  | IndexOutOfRange
  | FeeCurrencyNotSetError      \<comment> \<open>"Fee currency not set"\<close>
  | InvalidDecimalError string  \<comment> \<open>"invalid decimal: " and the string, thrown by \<open>Dec\<close>\<close>
  | WalletNotLoadedError WalletStatus  \<comment> \<open>"Wallet is not loaded: " and the status\<close>
  | NoMsgError                  \<comment> \<open>"There is no msg to send"\<close>
  | ExternalError string        \<comment> \<open>a failure of a network or extension collaborator\<close>

text \<open>
  An \<open>async\<close> method that reads and writes the fields of its object is a function
  from the state before to a result and the state after; \<open>await\<close> is sequencing.
\<close>

type_synonym ('s, 'a) action = "'s \<Rightarrow> (err + 'a) \<times> 's"

definition ret :: "'a \<Rightarrow> ('s, 'a) action" where
  "ret x = (\<lambda>s. (Inr x, s))"

definition throw :: "err \<Rightarrow> ('s, 'a) action" where
  "throw e = (\<lambda>s. (Inl e, s))"

definition bindE :: "('s, 'a) action \<Rightarrow> ('a \<Rightarrow> ('s, 'b) action) \<Rightarrow> ('s, 'b) action" where
  "bindE m f = (\<lambda>s. case m s of (Inl e, s') \<Rightarrow> (Inl e, s') | (Inr x, s') \<Rightarrow> f x s')"

section \<open>Collaborators of the key-ring service\<close>

text \<open>
  What the service reads of a chain's registry entry: the account prefix of
  \<open>bech32Config\<close> and the chain's default coin type.
\<close>

record ChainInfo =
  bech32PrefixAccAddr :: string
  chainCoinType :: nat

text \<open>A derivation path \<open>BIP44\<close> as the service reads it.\<close>

record BIP44 =
  coinType :: nat

record Key =
  pubKey :: bytes
  address :: bytes

text \<open>
  Modelled from the spec: the class \<open>KeyRing\<close> (imported from \<open>./keyring\<close>) is not
  among the sources. A key store record keeps the password it was encrypted under
  (decryption succeeds with that password only), its key material, and the display
  name and the per-chain coin-type overrides, stored unencrypted beside it.
\<close>

record KeyStore =
  ksName :: string
  ksPassword :: string
  ksSecret :: bytes
  coinTypeForChain :: "chainId \<rightharpoonup> nat"

text \<open>
  Modelled from the spec: a MultiKeyStore is an ordered sequence of key store records and
  a selected index; the persistence store holds the collection and the selection as a
  unit, and the ring is in one of the four lifecycle states.
\<close>

record KeyRing =
  status :: KeyRingStatus
  multiKeyStore :: "KeyStore list"
  selectedIndex :: nat
  kvStore :: "KeyStore list \<times> nat"

text \<open>
  The payloads that travel through the interaction collaborator: the empty object of the
  unlock request, a transaction config, and the chain id with the hex of the message
  of a sign request. \<open>TxBuilderConfigPrimitiveWithChainId\<close> is declared in
  \<open>./types\<close>, which is not among the sources; its fields are kept as strings.
\<close>

record TxBuilderConfig =
  cfgChainId :: chainId
  cfgGas :: string
  cfgMemo :: string
  cfgFee :: string

datatype payload = EmptyPayload | ConfigPayload TxBuilderConfig | SignPayload chainId string

text \<open>The values of \<open>EnableKeyRingMsg.type()\<close> and its siblings, used as request types.\<close>

datatype msgType = EnableKeyRingMsg_type | RequestTxBuilderConfigMsg_type | RequestSignMsg_type

record Env =
  extensionBaseURL :: string

text \<open>
  What the user answers to a request that waits for approval: approval with the resolved
  payload (which may be absent), or rejection.
\<close>

datatype decision = Approved "payload option" | Rejected

text \<open>
  The collaborators the service is constructed with. They are parameters of the model:
  the chain registry (\<open>getChainInfo\<close> fails on a chain it does not know), the bech32
  encoder of \<open>@keplr/cosmos\<close>, the key sources (public key and signature from a key
  store and a coin type), the origin permission table, the hex codec of \<open>Buffer\<close>,
  and the user behind the interaction collaborator, who sees a request and may act on the
  key ring (unlock it) before answering.
\<close>

record deps =
  chains :: "chainId \<rightharpoonup> ChainInfo"
  toBech32 :: "bytes \<Rightarrow> string \<Rightarrow> string"
  deriveKey :: "KeyStore \<Rightarrow> nat \<Rightarrow> Key"
  signWith :: "KeyStore \<Rightarrow> nat \<Rightarrow> bytes \<Rightarrow> bytes"
  isAllowed :: "string \<Rightarrow> chainId \<Rightarrow> string \<Rightarrow> bool"
  toHex :: "bytes \<Rightarrow> string"
  fromHex :: "string \<Rightarrow> bytes"
  user :: "string \<times> msgType \<times> payload \<Rightarrow> KeyRing \<Rightarrow> decision \<times> KeyRing"

text \<open>
  What can be observed of the service from outside: every request handed to the
  interaction collaborator (a Pending request) and every call of the signing step, in
  the order they happen.
\<close>

datatype event = WaitApprove string msgType payload | Sign chainId nat bytes

record world =
  keyRing :: KeyRing
  trace :: "event list"

section \<open>The key ring\<close>

definition activeKeyStore :: "KeyRing \<Rightarrow> KeyStore option" where
  "activeKeyStore kr =
     (if selectedIndex kr < length (multiKeyStore kr)
      then Some (multiKeyStore kr ! selectedIndex kr) else None)"

text \<open>
  Modelled from the spec: \<open>KeyRing.restore\<close> is not among the sources.
  \<open>NOTLOADED --restore()--> EMPTY | LOCKED\<close>: it reads the persisted collection,
  EMPTY if there are no records, LOCKED if records exist. The specification gives the
  transition from NOTLOADED only; from the other states the ring is left as it is.
\<close>

definition KeyRing_restore :: "KeyRing \<Rightarrow> KeyRing" where
  "KeyRing_restore kr =
     (if status kr = NOTLOADED
      then kr\<lparr>status := (if fst (kvStore kr) = [] then EMPTY else LOCKED),
              multiKeyStore := fst (kvStore kr),
              selectedIndex := snd (kvStore kr)\<rparr>
      else kr)"

text \<open>
  Modelled from the spec: \<open>KeyRing.unlock\<close> is not among the sources.
  \<open>LOCKED --unlock(password)--> UNLOCKED\<close> on successful decryption of the
  selected record; it fails with \<open>WrongPassword\<close> and remains LOCKED otherwise.
  The specification gives the transition from LOCKED only; in another state, or without
  a selected record, the call fails and the ring is left as it is.
\<close>

definition KeyRing_unlock :: "string \<Rightarrow> KeyRing \<Rightarrow> err + KeyRing" where
  "KeyRing_unlock password kr =
     (case activeKeyStore kr of
        None \<Rightarrow> Inl NoKeyError
      | Some ks \<Rightarrow>
          if status kr \<noteq> LOCKED then Inl KeyRingNotUnlockedError
          else if ksPassword ks \<noteq> password then Inl WrongPassword
          else Inr (kr\<lparr>status := UNLOCKED\<rparr>))"

text \<open>
  Modelled from the spec: the coin type resolved for a chain is the explicit per-chain
  override of the record if set, else the chain's default coin type.
\<close>

definition resolveCoinType :: "KeyStore \<Rightarrow> chainId \<Rightarrow> nat \<Rightarrow> nat" where
  "resolveCoinType ks c defaultCoinType =
     (case coinTypeForChain ks c of Some t \<Rightarrow> t | None \<Rightarrow> defaultCoinType)"

text \<open>
  Modelled from the spec: \<open>KeyRing.getKeyFromCoinType\<close> is not among the sources. It
  derives the active record's key for a given coin type and requires UNLOCKED.
\<close>

definition KeyRing_getKeyFromCoinType :: "deps \<Rightarrow> nat \<Rightarrow> KeyRing \<Rightarrow> err + Key" where
  "KeyRing_getKeyFromCoinType d t kr =
     (if status kr \<noteq> UNLOCKED then Inl KeyRingNotUnlockedError
      else case activeKeyStore kr of
             None \<Rightarrow> Inl KeyRingNotUnlockedError
           | Some ks \<Rightarrow> Inr (deriveKey d ks t))"

text \<open>
  Modelled from the spec: \<open>KeyRing.getKey\<close> is not among the sources.
  \<open>getKey(chainId)\<close> requires UNLOCKED and fails with \<open>KeyRingNotUnlockedError\<close>
  otherwise; it derives the active record's key using the coin type resolved for the
  chain. The chain's default coin type is passed in by the service.
\<close>

definition KeyRing_getKey :: "deps \<Rightarrow> chainId \<Rightarrow> nat \<Rightarrow> KeyRing \<Rightarrow> err + Key" where
  "KeyRing_getKey d c defaultCoinType kr =
     (if status kr \<noteq> UNLOCKED then Inl KeyRingNotUnlockedError
      else case activeKeyStore kr of
             None \<Rightarrow> Inl KeyRingNotUnlockedError
           | Some ks \<Rightarrow> Inr (deriveKey d ks (resolveCoinType ks c defaultCoinType)))"

text \<open>
  Modelled from the spec: \<open>KeyRing.sign\<close> is not among the sources. Signing uses the
  same key as \<open>getKey\<close> and requires UNLOCKED.
\<close>

definition KeyRing_sign :: "deps \<Rightarrow> chainId \<Rightarrow> nat \<Rightarrow> bytes \<Rightarrow> KeyRing \<Rightarrow> err + bytes" where
  "KeyRing_sign d c defaultCoinType message kr =
     (if status kr \<noteq> UNLOCKED then Inl KeyRingNotUnlockedError
      else case activeKeyStore kr of
             None \<Rightarrow> Inl KeyRingNotUnlockedError
           | Some ks \<Rightarrow> Inr (signWith d ks (resolveCoinType ks c defaultCoinType) message))"

text \<open>
  Modelled from the spec: \<open>KeyRing.isKeyStoreCoinTypeSet\<close> is not among the sources.
  It tells whether the active record has an override for the chain; without an active
  record it fails with \<open>NoKeyError\<close>.
\<close>

definition KeyRing_isKeyStoreCoinTypeSet :: "chainId \<Rightarrow> KeyRing \<Rightarrow> err + bool" where
  "KeyRing_isKeyStoreCoinTypeSet c kr =
     (case activeKeyStore kr of
        None \<Rightarrow> Inl NoKeyError
      | Some ks \<Rightarrow> Inr (coinTypeForChain ks c \<noteq> None))"

text \<open>
  Modelled from the spec: every mutating operation persists the full updated collection
  and the selection as a unit.
\<close>

definition persist :: "KeyRing \<Rightarrow> KeyRing" where
  "persist kr = kr\<lparr>kvStore := (multiKeyStore kr, selectedIndex kr)\<rparr>"

text \<open>
  Modelled from the spec: \<open>KeyRing.setKeyStoreCoinType\<close> is not among the sources.
  \<open>setKeyStoreCoinType(chainId, coinType)\<close> fails if the coin type is already set for
  that key store and chain (set-once policy); otherwise it records the override in the
  active record and persists the collection. Without an active record there is nothing
  to set and the call fails with \<open>NoKeyError\<close>.
\<close>

definition KeyRing_setKeyStoreCoinType :: "chainId \<Rightarrow> nat \<Rightarrow> KeyRing \<Rightarrow> err + KeyRing" where
  "KeyRing_setKeyStoreCoinType c t kr =
     (case activeKeyStore kr of
        None \<Rightarrow> Inl NoKeyError
      | Some ks \<Rightarrow>
          if coinTypeForChain ks c \<noteq> None then Inl CoinTypeAlreadySetError
          else Inr (persist (kr\<lparr>multiKeyStore :=
                 (multiKeyStore kr)[selectedIndex kr :=
                    ks\<lparr>coinTypeForChain := (coinTypeForChain ks)(c \<mapsto> t)\<rparr>]\<rparr>)))"

text \<open>
  Modelled from the spec: \<open>KeyRing.deleteKeyRing\<close> is not among the sources.
  \<open>delete(index, password)\<close> fails with \<open>WrongPassword\<close> if the record's password
  check fails, and with \<open>IndexOutOfRange\<close> if there is no record at the index.
  Deleting the selected record re-selects index 0 or, when it was the last record, marks
  the ring EMPTY; deleting another record keeps the selected record selected (its index
  moves down by one when the deleted record was before it). The updated collection is
  persisted as a unit.
\<close>

definition KeyRing_deleteKeyRing :: "nat \<Rightarrow> string \<Rightarrow> KeyRing \<Rightarrow> err + KeyRing" where
  "KeyRing_deleteKeyRing index password kr =
     (if index \<ge> length (multiKeyStore kr) then Inl IndexOutOfRange
      else if ksPassword (multiKeyStore kr ! index) \<noteq> password then Inl WrongPassword
      else
        let rest = take index (multiKeyStore kr) @ drop (Suc index) (multiKeyStore kr)
        in if rest = []
           then Inr (persist (kr\<lparr>status := EMPTY, multiKeyStore := [], selectedIndex := 0\<rparr>))
           else if index = selectedIndex kr
           then Inr (persist (kr\<lparr>multiKeyStore := rest, selectedIndex := 0\<rparr>))
           else Inr (persist (kr\<lparr>multiKeyStore := rest,
                       selectedIndex := (if index < selectedIndex kr
                                         then selectedIndex kr - 1
                                         else selectedIndex kr)\<rparr>)))"

text \<open>
  Modelled from the spec: \<open>KeyRing.getMultiKeyStoreInfo\<close> is not among the sources.
  The view \<open>MultiKeyStoreInfoWithSelected\<close> has one entry per record, in order: the
  display name and the flag \<open>selected\<close>; it never exposes the secrets.
\<close>

definition KeyRing_getMultiKeyStoreInfo :: "KeyRing \<Rightarrow> (string \<times> bool) list" where
  "KeyRing_getMultiKeyStoreInfo kr =
     map (\<lambda>i. (ksName (multiKeyStore kr ! i), i = selectedIndex kr))
         [0 ..< length (multiKeyStore kr)]"

text \<open>
  The invariant of the MultiKeyStore: the selected index refers to an existing record
  whenever the collection is not empty.
\<close>

definition selectionValid :: "KeyRing \<Rightarrow> bool" where
  "selectionValid kr = (multiKeyStore kr = [] \<or> selectedIndex kr < length (multiKeyStore kr))"

section \<open>The key-ring service (class \<open>KeyRingService\<close>)\<close>

text \<open>
  Modelled from the spec: \<open>ChainsService\<close> is not among the sources.
  \<open>getChainInfo(chainId)\<close> fails if the chain is unknown.
\<close>

definition getChainInfo :: "deps \<Rightarrow> chainId \<Rightarrow> ('s, ChainInfo) action" where
  "getChainInfo d c = (case chains d c of None \<Rightarrow> throw ChainUnknownError | Some ci \<Rightarrow> ret ci)"

text \<open>
  Modelled from the spec: \<open>ChainsService.getChainCoinType\<close> is not among the sources. It
  gives the default coin type of the chain's registry entry.
\<close>

definition getChainCoinType :: "deps \<Rightarrow> chainId \<Rightarrow> ('s, nat) action" where
  "getChainCoinType d c = bindE (getChainInfo d c) (\<lambda>ci. ret (chainCoinType ci))"

text \<open>
  Modelled from the spec: \<open>InteractionService.waitApprove\<close> is not among the sources.
  The request is recorded as Pending, the caller is suspended until the user's decision
  is reported: approval releases the caller with the resolved payload, rejection makes
  the pending call fail with \<open>UserRejectedError\<close>.
\<close>

definition waitApprove ::
  "deps \<Rightarrow> Env \<Rightarrow> string \<Rightarrow> msgType \<Rightarrow> payload \<Rightarrow> (world, payload option) action" where
  "waitApprove d env path ty p = (\<lambda>w.
     case user d (path, ty, p) (keyRing w) of
       (Approved r, kr) \<Rightarrow> (Inr r, \<lparr>keyRing = kr, trace = trace w @ [WaitApprove path ty p]\<rparr>)
     | (Rejected, kr) \<Rightarrow>
         (Inl UserRejectedError, \<lparr>keyRing = kr, trace = trace w @ [WaitApprove path ty p]\<rparr>))"

text \<open>The calls \<open>this.keyRing.f(...)\<close> of the service: reads of the ring, and the signing step.\<close>

definition readRing :: "(KeyRing \<Rightarrow> err + 'a) \<Rightarrow> (world, 'a) action" where
  "readRing f = (\<lambda>w. (f (keyRing w), w))"

definition updateRing :: "(KeyRing \<Rightarrow> err + KeyRing) \<Rightarrow> (world, unit) action" where
  "updateRing f = (\<lambda>w. case f (keyRing w) of
                          Inl e \<Rightarrow> (Inl e, w)
                        | Inr kr \<Rightarrow> (Inr (), w\<lparr>keyRing := kr\<rparr>))"

definition keyRing_sign :: "deps \<Rightarrow> Env \<Rightarrow> chainId \<Rightarrow> nat \<Rightarrow> bytes \<Rightarrow> (world, bytes) action" where
  "keyRing_sign d env c t message = (\<lambda>w.
     (KeyRing_sign d c t message (keyRing w), w\<lparr>trace := trace w @ [Sign c t message]\<rparr>))"

text \<open>\<open>KeyRingService.enable\<close>.\<close>

definition enable :: "deps \<Rightarrow> Env \<Rightarrow> (world, KeyRingStatus) action" where
  "enable d env = (\<lambda>w.
     if status (keyRing w) = EMPTY then throw NoKeyError w
     else
       let w1 = (if status (keyRing w) = NOTLOADED
                 then w\<lparr>keyRing := KeyRing_restore (keyRing w)\<rparr> else w)
       in if status (keyRing w1) = LOCKED
          then bindE (waitApprove d env ''/unlock'' EnableKeyRingMsg_type EmptyPayload)
                 (\<lambda>_ w2. ret (status (keyRing w2)) w2) w1
          else ret (status (keyRing w1)) w1)"

text \<open>\<open>KeyRingService.getKey\<close>: the chain's coin type is awaited first, then the ring is asked.\<close>

definition getKey :: "deps \<Rightarrow> chainId \<Rightarrow> (world, Key) action" where
  "getKey d c = bindE (getChainCoinType d c) (\<lambda>t. readRing (KeyRing_getKey d c t))"

text \<open>\<open>KeyRingService.checkBech32Address\<close>.\<close>

definition checkBech32Address :: "deps \<Rightarrow> chainId \<Rightarrow> string \<Rightarrow> (world, unit) action" where
  "checkBech32Address d c bech32Address =
     bindE (getKey d c) (\<lambda>key.
     bindE (getChainInfo d c) (\<lambda>ci.
       if bech32Address \<noteq> toBech32 d (address key) (bech32PrefixAccAddr ci)
       then throw AddressMismatchError
       else ret ()))"

text \<open>\<open>KeyRingService.deleteKeyRing\<close>: the view and the status after the deletion.\<close>

definition deleteKeyRing ::
  "nat \<Rightarrow> string \<Rightarrow> (world, (string \<times> bool) list \<times> KeyRingStatus) action" where
  "deleteKeyRing index password =
     bindE (updateRing (KeyRing_deleteKeyRing index password))
       (\<lambda>_ w. ret (KeyRing_getMultiKeyStoreInfo (keyRing w), status (keyRing w)) w)"

text \<open>\<open>KeyRingService.requestTxBuilderConfig\<close>.\<close>

definition requestTxBuilderConfig ::
  "deps \<Rightarrow> Env \<Rightarrow> TxBuilderConfig \<Rightarrow> bool \<Rightarrow> (world, payload) action" where
  "requestTxBuilderConfig d env config skipApprove =
     (if skipApprove then ret (ConfigPayload config)
      else bindE (waitApprove d env ''/fee'' RequestTxBuilderConfigMsg_type (ConfigPayload config))
             (\<lambda>result. case result of
                          None \<Rightarrow> throw NullConfigError
                        | Some r \<Rightarrow> ret r))"

text \<open>\<open>KeyRingService.requestSign\<close>.\<close>

definition requestSign ::
  "deps \<Rightarrow> Env \<Rightarrow> chainId \<Rightarrow> bytes \<Rightarrow> bool \<Rightarrow> (world, bytes) action" where
  "requestSign d env c message skipApprove =
     (if skipApprove
      then bindE (getChainCoinType d c) (\<lambda>t. keyRing_sign d env c t message)
      else bindE (waitApprove d env ''/sign'' RequestSignMsg_type
                    (SignPayload c (toHex d message)))
             (\<lambda>_. bindE (getChainCoinType d c) (\<lambda>t. keyRing_sign d env c t message)))"

text \<open>\<open>KeyRingService.isKeyStoreCoinTypeSet\<close> and \<open>KeyRingService.setKeyStoreCoinType\<close>.\<close>

definition isKeyStoreCoinTypeSet :: "chainId \<Rightarrow> (world, bool) action" where
  "isKeyStoreCoinTypeSet c = readRing (KeyRing_isKeyStoreCoinTypeSet c)"

definition setKeyStoreCoinType :: "chainId \<Rightarrow> nat \<Rightarrow> (world, unit) action" where
  "setKeyStoreCoinType c t = updateRing (KeyRing_setKeyStoreCoinType c t)"

text \<open>
  \<open>KeyRingService.getKeyStoreBIP44Selectables\<close>. The loop over \<open>paths\<close> pushes one entry
  per path onto \<open>result\<close>; the first key that cannot be derived ends it with the error.
\<close>

fun selectablesLoop ::
  "deps \<Rightarrow> ChainInfo \<Rightarrow> (BIP44 \<times> string) list \<Rightarrow> BIP44 list \<Rightarrow> (world, (BIP44 \<times> string) list) action"
where
  "selectablesLoop d ci result [] = ret result"
| "selectablesLoop d ci result (path # paths) =
     bindE (readRing (KeyRing_getKeyFromCoinType d (coinType path))) (\<lambda>key.
       selectablesLoop d ci
         (result @ [(path, toBech32 d (address key) (bech32PrefixAccAddr ci))]) paths)"

definition getKeyStoreBIP44Selectables ::
  "deps \<Rightarrow> chainId \<Rightarrow> BIP44 list \<Rightarrow> (world, (BIP44 \<times> string) list) action" where
  "getKeyStoreBIP44Selectables d c paths =
     bindE (isKeyStoreCoinTypeSet c) (\<lambda>isSet.
       if isSet then ret []
       else bindE (getChainInfo d c) (\<lambda>chainInfo. selectablesLoop d chainInfo [] paths))"

section \<open>The message handlers of the key ring\<close>

text \<open>
  The handlers are written against a \<open>keeper\<close> object and use these of its methods.
  The handlers pass the extension's base URL where the service takes the environment, and
  the request id and the \<open>openPopup\<close> flag besides \<open>skipApprove\<close>.
\<close>

record KeyRingKeeper =
  keeper_checkAccessOrigin :: "string \<Rightarrow> chainId \<Rightarrow> string \<Rightarrow> (world, unit) action"
  keeper_getChainInfo :: "chainId \<Rightarrow> (world, ChainInfo) action"
  keeper_enable :: "string \<Rightarrow> (world, KeyRingStatus) action"
  keeper_checkBech32Address :: "chainId \<Rightarrow> string \<Rightarrow> (world, unit) action"
  keeper_requestTxBuilderConfig ::
    "string \<Rightarrow> TxBuilderConfig \<Rightarrow> string \<Rightarrow> bool \<Rightarrow> bool \<Rightarrow> (world, payload) action"
  keeper_requestSign ::
    "string \<Rightarrow> chainId \<Rightarrow> bytes \<Rightarrow> string \<Rightarrow> bool \<Rightarrow> bool \<Rightarrow> (world, bytes) action"

record EnableKeyRingMsg =
  enable_chainId :: chainId
  enable_origin :: string

record RequestTxBuilderConfigMsg =
  config :: TxBuilderConfig
  txc_id :: string
  txc_openPopup :: bool
  txc_skipApprove :: bool
  txc_origin :: string

record RequestSignMsg =
  sign_chainId :: chainId
  bech32Address :: string
  messageHex :: string
  sign_id :: string
  sign_openPopup :: bool
  sign_skipApprove :: bool
  sign_origin :: string

text \<open>\<open>handleEnableKeyRingMsg\<close>.\<close>

definition handleEnableKeyRingMsg ::
  "KeyRingKeeper \<Rightarrow> Env \<Rightarrow> EnableKeyRingMsg \<Rightarrow> (world, KeyRingStatus) action" where
  "handleEnableKeyRingMsg keeper env msg =
     bindE (keeper_checkAccessOrigin keeper (extensionBaseURL env)
              (enable_chainId msg) (enable_origin msg)) (\<lambda>_.
     bindE (keeper_getChainInfo keeper (enable_chainId msg)) (\<lambda>_.
       keeper_enable keeper (extensionBaseURL env)))"

text \<open>\<open>handleRequestTxBuilderConfigMsg\<close>.\<close>

definition handleRequestTxBuilderConfigMsg ::
  "KeyRingKeeper \<Rightarrow> Env \<Rightarrow> RequestTxBuilderConfigMsg \<Rightarrow> (world, payload) action" where
  "handleRequestTxBuilderConfigMsg keeper env msg =
     bindE (keeper_checkAccessOrigin keeper (extensionBaseURL env)
              (cfgChainId (config msg)) (txc_origin msg)) (\<lambda>_.
       keeper_requestTxBuilderConfig keeper (extensionBaseURL env) (config msg)
         (txc_id msg) (txc_openPopup msg) (txc_skipApprove msg))"

text \<open>\<open>handleRequestSignMsg\<close>; the result is the field \<open>signatureHex\<close>.\<close>

definition handleRequestSignMsg ::
  "deps \<Rightarrow> KeyRingKeeper \<Rightarrow> Env \<Rightarrow> RequestSignMsg \<Rightarrow> (world, string) action" where
  "handleRequestSignMsg d keeper env msg =
     bindE (keeper_checkAccessOrigin keeper (extensionBaseURL env)
              (sign_chainId msg) (sign_origin msg)) (\<lambda>_.
     bindE (keeper_checkBech32Address keeper (sign_chainId msg) (bech32Address msg)) (\<lambda>_.
     bindE (keeper_requestSign keeper (extensionBaseURL env) (sign_chainId msg)
              (fromHex d (messageHex msg)) (sign_id msg) (sign_openPopup msg)
              (sign_skipApprove msg)) (\<lambda>signature.
       ret (toHex d signature))))"

text \<open>
  Modelled from the spec: the keeper's \<open>checkAccessOrigin\<close> is not among the sources.
  The origin-permission check asks whether the origin is allowed to request the chain
  and throws when it is not; it records nothing.
\<close>

definition checkAccessOrigin :: "deps \<Rightarrow> string \<Rightarrow> chainId \<Rightarrow> string \<Rightarrow> (world, unit) action" where
  "checkAccessOrigin d baseURL c origin =
     (if isAllowed d baseURL c origin then ret () else throw OriginNotAllowedError)"

text \<open>
  The keeper the handlers run against: the methods of the key-ring service, which take
  neither the request id nor \<open>openPopup\<close>, behind the permission check.
\<close>

definition serviceKeeper :: "deps \<Rightarrow> KeyRingKeeper" where
  "serviceKeeper d =
     \<lparr>keeper_checkAccessOrigin = checkAccessOrigin d,
      keeper_getChainInfo = getChainInfo d,
      keeper_enable = (\<lambda>baseURL. enable d \<lparr>extensionBaseURL = baseURL\<rparr>),
      keeper_checkBech32Address = checkBech32Address d,
      keeper_requestTxBuilderConfig = (\<lambda>baseURL cfg rid openPopup skipApprove.
         requestTxBuilderConfig d \<lparr>extensionBaseURL = baseURL\<rparr> cfg skipApprove),
      keeper_requestSign = (\<lambda>baseURL c message rid openPopup skipApprove.
         requestSign d \<lparr>extensionBaseURL = baseURL\<rparr> c message skipApprove)\<rparr>"

section \<open>The fee configuration of a transaction (class \<open>FeeConfig\<close>)\<close>

datatype FeeType = High | Average | Low

record CoinPrimitive =
  denom :: string
  amount :: string

record Currency =
  coinMinimalDenom :: string

text \<open>
  A gas price is a JavaScript number that the code reads through \<open>toString()\<close>; it is
  kept as the string that \<open>toString()\<close> gives, which is in exponent form for a small
  number (\<open>1e-7\<close>).
\<close>

record GasPriceStep =
  low :: string
  average :: string
  high :: string


record FeeChainInfo =
  feeCurrencies :: "Currency list"
  gasPriceStep :: "GasPriceStep option"

text \<open>
  What a \<open>FeeConfig\<close> is constructed with: the chain getter, which may not know a
  chain; the gas of the gas config, a number, kept as the string \<open>toString()\<close> gives
  as \<open>Dec\<close> reads it; and the decimal arithmetic of \<open>@keplr/unit\<close>, as the function
  that gives \<open>new Dec(price).mul(new Dec(gas)).truncate().toString()\<close>. The arithmetic
  is partial: the constructor of \<open>Dec\<close> throws on a string that is not a plain
  decimal, as the exponent form of a number is.
\<close>

record feeEnv =
  getChain :: "chainId \<Rightarrow> err + FeeChainInfo"
  gas :: string
  mulTruncate :: "string \<Rightarrow> string \<Rightarrow> err + string"

text \<open>The observable fields \<open>_feeType\<close> and \<open>_manualFee\<close>, and the chain id of the base class.\<close>

record FeeConfig =
  fee_chainId :: chainId
  feeType :: "FeeType option"
  manualFee :: "CoinPrimitive option"





text \<open>
  Modelled from the spec: the getter \<open>chainInfo\<close> of \<open>TxChainSetter\<close> is not among
  the sources; it asks the chain getter for the chain of the current chain id.
\<close>

definition chainInfo :: "feeEnv \<Rightarrow> FeeConfig \<Rightarrow> err + FeeChainInfo" where
  "chainInfo env s = getChain env (fee_chainId s)"









section \<open>Sending messages from an account store (class \<open>AccountStoreInner\<close>)\<close>

record Msg =
  msg_type :: string
  msg_value :: string

record StdFee =
  fee_amount :: "CoinPrimitive list"
  fee_gas :: string

datatype BroadcastMode = block | async | sync

record SignDoc =
  doc_msgs :: "Msg list"
  doc_fee :: StdFee
  doc_chainId :: chainId
  doc_memo :: string
  doc_accountNumber :: nat
  doc_sequence :: nat

record StdTx =
  tx_signed :: SignDoc
  tx_signature :: string

text \<open>
  The collaborators of \<open>broadcastMsgs\<close>: the REST query of the account (number and
  sequence), whether the extension's API object is there, its \<open>sign\<close> and its
  \<open>sendTx\<close>. Each of the three calls may fail.
\<close>

record accountEnv =
  fetchFromRest :: "string \<Rightarrow> err + nat \<times> nat"
  keplrPresent :: bool
  keplr_sign :: "chainId \<Rightarrow> string \<Rightarrow> SignDoc \<Rightarrow> err + SignDoc \<times> string"
  keplr_sendTx :: "chainId \<Rightarrow> StdTx \<Rightarrow> BroadcastMode \<Rightarrow> err + bytes"

text \<open>The calls that leave the store, in the order they are made.\<close>

datatype call =
    FetchFromRest string
  | KeplrSign chainId string SignDoc
  | KeplrSendTx chainId StdTx BroadcastMode
  | TraceTx bytes

text \<open>
  The fields of the store that sending reads and writes; \<open>isSendingMsg\<close> is the kind
  of message being sent, or \<open>false\<close> (here \<open>None\<close>).
\<close>

record AccountStoreInner =
  acc_chainId :: chainId
  walletStatus :: WalletStatus
  acc_bech32Address :: string
  isSendingMsg :: "string option"
  broadcastMode :: BroadcastMode
  calls :: "call list"

definition callOut :: "call \<Rightarrow> err + 'a \<Rightarrow> (AccountStoreInner, 'a) action" where
  "callOut c r = (\<lambda>s. (r, s\<lparr>calls := calls s @ [c]\<rparr>))"

definition makeSignDoc ::
  "Msg list \<Rightarrow> StdFee \<Rightarrow> chainId \<Rightarrow> string \<Rightarrow> nat \<Rightarrow> nat \<Rightarrow> SignDoc" where
  "makeSignDoc msgs fee c memo accountNumber sequence =
     \<lparr>doc_msgs = msgs, doc_fee = fee, doc_chainId = c, doc_memo = memo,
      doc_accountNumber = accountNumber, doc_sequence = sequence\<rparr>"

text \<open>\<open>AccountStoreInner.broadcastMsgs\<close>; it returns the hash of the transaction.\<close>

definition broadcastMsgs ::
  "accountEnv \<Rightarrow> Msg list \<Rightarrow> StdFee \<Rightarrow> string \<Rightarrow> BroadcastMode \<Rightarrow> (AccountStoreInner, bytes) action"
where
  "broadcastMsgs env msgs fee memo mode = (\<lambda>s.
     if walletStatus s \<noteq> Loaded then throw (WalletNotLoadedError (walletStatus s)) s
     else if length msgs = 0 then throw NoMsgError s
     else
       (bindE (callOut (FetchFromRest (acc_bech32Address s))
                 (fetchFromRest env (acc_bech32Address s))) (\<lambda>account.
        let signDoc = makeSignDoc msgs fee (acc_chainId s) memo (fst account) (snd account)
        in if \<not> keplrPresent env then throw (ExternalError ''TypeError'')
           else
             bindE (callOut (KeplrSign (acc_chainId s) (acc_bech32Address s) signDoc)
                      (keplr_sign env (acc_chainId s) (acc_bech32Address s) signDoc))
               (\<lambda>signResponse.
                  let signedTx = \<lparr>tx_signed = fst signResponse,
                                   tx_signature = snd signResponse\<rparr>
                  in callOut (KeplrSendTx (acc_chainId s) signedTx mode)
                       (keplr_sendTx env (acc_chainId s) signedTx mode)))) s)"

text \<open>
  \<open>AccountStoreInner.sendMsgs\<close>, up to the point where it returns: the tracing of the
  transaction is started and its callback runs later.
\<close>

definition sendMsgs ::
  "accountEnv \<Rightarrow> string \<Rightarrow> Msg list \<Rightarrow> StdFee \<Rightarrow> string \<Rightarrow> (AccountStoreInner, unit) action"
where
  "sendMsgs env ty msgs fee memo = (\<lambda>s.
     let s1 = s\<lparr>isSendingMsg := Some ty\<rparr>
     in case broadcastMsgs env msgs fee memo (broadcastMode s1) s1 of
          (Inl e, s2) \<Rightarrow> (Inl e, s2\<lparr>isSendingMsg := None\<rparr>)
        | (Inr txHash, s2) \<Rightarrow> (Inr (), s2\<lparr>calls := calls s2 @ [TraceTx txHash]\<rparr>))"

text \<open>The callback of \<open>traceTx\<close>, once the transaction is traced.\<close>

definition onTraced :: "AccountStoreInner \<Rightarrow> AccountStoreInner" where
  "onTraced s = s\<lparr>isSendingMsg := None\<rparr>"

section \<open>A concrete installation\<close>

text \<open>
  One chain, one key store and stand-ins for the cryptography, small enough to run the
  definitions on: the address of a key is its coin type followed by the secret, the
  encoding writes \<open>q\<close> for the byte 118 and \<open>p\<close> for any other, and only the
  extension's own pages are allowed as origins. The user unlocks with the right password
  when asked to, raises the fee of a config before approving it, and approves a signature.
\<close>

definition cosmosStore :: KeyStore where
  "cosmosStore = \<lparr>ksName = ''main'', ksPassword = ''pw1'', ksSecret = [7, 9],
                   coinTypeForChain = Map.empty\<rparr>"

definition cosmosUser :: "string \<times> msgType \<times> payload \<Rightarrow> KeyRing \<Rightarrow> decision \<times> KeyRing" where
  "cosmosUser req kr =
     (case req of
        (path, ty, EmptyPayload) \<Rightarrow>
          (case KeyRing_unlock ''pw1'' kr of
             Inr kr' \<Rightarrow> (Approved None, kr')
           | Inl e \<Rightarrow> (Rejected, kr))
      | (path, ty, ConfigPayload cfg) \<Rightarrow>
          (Approved (Some (ConfigPayload (cfg\<lparr>cfgFee := ''5000uatom''\<rparr>))), kr)
      | (path, ty, SignPayload c h) \<Rightarrow> (Approved None, kr))"

definition cosmosDeps :: deps where
  "cosmosDeps =
     \<lparr>chains = (\<lambda>c. if c = ''cosmoshub-4''
                     then Some \<lparr>bech32PrefixAccAddr = ''cosmos'', chainCoinType = 118\<rparr>
                     else None),
      toBech32 = (\<lambda>addr prefix.
                    prefix @ ''1'' @ map (\<lambda>n. if n = 118 then CHR ''q'' else CHR ''p'') addr),
      deriveKey = (\<lambda>ks t. \<lparr>pubKey = t # ksSecret ks, address = t # ksSecret ks\<rparr>),
      signWith = (\<lambda>ks t message. t # ksSecret ks @ message),
      isAllowed = (\<lambda>baseURL c origin. origin = baseURL),
      toHex = map (\<lambda>n. if n = 0 then CHR ''0'' else CHR ''1''),
      fromHex = map (\<lambda>ch. if ch = CHR ''0'' then 0 else 1),
      user = cosmosUser\<rparr>"

definition cosmosWorld :: world where
  "cosmosWorld =
     \<lparr>keyRing = \<lparr>status = UNLOCKED, multiKeyStore = [cosmosStore], selectedIndex = 0,
                  kvStore = ([cosmosStore], 0)\<rparr>,
      trace = []\<rparr>"

definition extEnv :: Env where
  "extEnv = \<lparr>extensionBaseURL = ''chrome-extension://keplr''\<rparr>"

definition secondStore :: KeyStore where
  "secondStore = \<lparr>ksName = ''second'', ksPassword = ''pw1'', ksSecret = [3],
                   coinTypeForChain = Map.empty\<rparr>"

definition twoStoreWorld :: world where
  "twoStoreWorld =
     \<lparr>keyRing = \<lparr>status = UNLOCKED, multiKeyStore = [cosmosStore, secondStore],
                  selectedIndex = 1, kvStore = ([cosmosStore, secondStore], 1)\<rparr>,
      trace = []\<rparr>"

text \<open>
  An account store of the front end whose wallet is loaded, and collaborators of which
  the extension's \<open>sign\<close> is rejected by the user.
\<close>

definition demoAccount :: AccountStoreInner where
  "demoAccount = \<lparr>acc_chainId = ''cosmoshub-4'', walletStatus = Loaded,
                   acc_bech32Address = ''cosmos1qpp'', isSendingMsg = None,
                   broadcastMode = sync, calls = []\<rparr>"

definition demoAccountEnv :: accountEnv where
  "demoAccountEnv =
     \<lparr>fetchFromRest = (\<lambda>addr. Inr (12, 3)),
      keplrPresent = True,
      keplr_sign = (\<lambda>c addr doc. Inl UserRejectedError),
      keplr_sendTx = (\<lambda>c tx mode. Inr [1, 2, 3])\<rparr>"

definition demoMsg :: Msg where
  "demoMsg = \<lparr>msg_type = ''cosmos-sdk/MsgSend'', msg_value = ''value''\<rparr>"

definition demoFee :: StdFee where
  "demoFee = \<lparr>fee_amount = [], fee_gas = ''80000''\<rparr>"

section \<open>Sequencing\<close>

lemma bindE_Inr: "m s = (Inr x, s') \<Longrightarrow> bindE m f s = f x s'"
  by (simp add: bindE_def)

lemma bindE_ret: "bindE (ret x) f = f x"
  by (simp add: bindE_def ret_def)

lemma bindE_throw: "bindE (throw e) f = throw e"
  by (simp add: bindE_def throw_def)

section \<open>The address check of a sign request\<close>

lemma getChainInfo_Some: "chains d c = Some ci \<Longrightarrow> getChainInfo d c = ret ci"
  by (simp add: getChainInfo_def)

lemma getKey_world: "snd (getKey d c w) = w"
  by (simp add: getKey_def getChainCoinType_def getChainInfo_def bindE_def ret_def
        throw_def readRing_def split: option.splits)

lemma checkBech32Address_world: "snd (checkBech32Address d c a w) = w"
  by (cases "chains d c")
     (auto simp add: checkBech32Address_def getKey_def getChainCoinType_def getChainInfo_def bindE_ret bindE_throw
        throw_def readRing_def bindE_def ret_def split: sum.splits prod.splits)

lemma checkBech32Address_result:
  assumes "fst (getKey d c w) = Inr key" and "chains d c = Some ci"
  shows "fst (checkBech32Address d c a w) =
           (if a \<noteq> toBech32 d (address key) (bech32PrefixAccAddr ci)
            then Inl AddressMismatchError else Inr ())"
proof -
  have "getKey d c w = (Inr key, w)"
    using assms(1) getKey_world [of d c w] by (cases "getKey d c w") simp
  then show ?thesis
    using assms(2)
    by (simp add: checkBech32Address_def bindE_Inr getChainInfo_Some bindE_ret throw_def ret_def)
qed

lemma handleRequestSignMsg_check_failed:
  assumes "fst (keeper_checkBech32Address k (sign_chainId msg) (bech32Address msg) w1) = Inl e"
    and "keeper_checkAccessOrigin k (extensionBaseURL env) (sign_chainId msg) (sign_origin msg) w = (Inr u, w1)"
  shows "handleRequestSignMsg d k env msg w =
           (Inl e, snd (keeper_checkBech32Address k (sign_chainId msg) (bech32Address msg) w1))"
  using assms
  by (cases "keeper_checkBech32Address k (sign_chainId msg) (bech32Address msg) w1")
     (simp add: handleRequestSignMsg_def bindE_def)

lemma handleRequestSignMsg_origin_refused:
  assumes "keeper_checkAccessOrigin k (extensionBaseURL env) (sign_chainId msg) (sign_origin msg) w = (Inl e, w1)"
  shows "handleRequestSignMsg d k env msg w = (Inl e, w1)"
  using assms by (simp add: handleRequestSignMsg_def bindE_def)

lemma handleRequestTxBuilderConfigMsg_origin_refused:
  assumes "keeper_checkAccessOrigin k (extensionBaseURL env) (cfgChainId (config msg)) (txc_origin msg) w = (Inl e, w1)"
  shows "handleRequestTxBuilderConfigMsg k env msg w = (Inl e, w1)"
  using assms by (simp add: handleRequestTxBuilderConfigMsg_def bindE_def)

text \<open>
  Claim C1. Let the active key and the chain's registry entry be available. Then
  \<open>checkBech32Address\<close> fails with the address-mismatch error if and only if the
  supplied address differs from the bech32 encoding of the key's raw address under the
  chain's account prefix, and it succeeds if and only if they are equal. In the
  request-sign handler the check runs before \<open>requestSign\<close>: with a mismatched address
  the handler fails and leaves the world as it was, so the trace has no new signing step
  and no new pending request.
\<close>

theorem checkBech32Address_guards_signing:
  assumes "fst (getKey d (sign_chainId msg) w) = Inr key"
    and "chains d (sign_chainId msg) = Some ci"
  shows "(fst (checkBech32Address d (sign_chainId msg) (bech32Address msg) w)
            = Inl AddressMismatchError)
           = (bech32Address msg \<noteq> toBech32 d (address key) (bech32PrefixAccAddr ci))
       \<and> (fst (checkBech32Address d (sign_chainId msg) (bech32Address msg) w) = Inr ())
           = (bech32Address msg = toBech32 d (address key) (bech32PrefixAccAddr ci))
       \<and> (bech32Address msg \<noteq> toBech32 d (address key) (bech32PrefixAccAddr ci) \<longrightarrow>
            handleRequestSignMsg d (serviceKeeper d) env msg w =
              (Inl (if isAllowed d (extensionBaseURL env) (sign_chainId msg) (sign_origin msg)
                    then AddressMismatchError else OriginNotAllowedError), w))"
proof -
  let ?c = "sign_chainId msg" and ?a = "bech32Address msg"
  have r: "fst (checkBech32Address d ?c ?a w) =
           (if ?a \<noteq> toBech32 d (address key) (bech32PrefixAccAddr ci)
            then Inl AddressMismatchError else Inr ())"
    using assms by (rule checkBech32Address_result)
  have "handleRequestSignMsg d (serviceKeeper d) env msg w =
          (Inl (if isAllowed d (extensionBaseURL env) ?c (sign_origin msg)
                then AddressMismatchError else OriginNotAllowedError), w)"
    if ne: "?a \<noteq> toBech32 d (address key) (bech32PrefixAccAddr ci)"
  proof (cases "isAllowed d (extensionBaseURL env) ?c (sign_origin msg)")
    case True
    have "handleRequestSignMsg d (serviceKeeper d) env msg w =
            (Inl AddressMismatchError, snd (checkBech32Address d ?c ?a w))"
      using handleRequestSignMsg_check_failed [where k = "serviceKeeper d" and msg = msg
          and ?w1.0 = w and e = AddressMismatchError and env = env and u = "()" and w = w
          and d = d] r ne True
      by (simp add: serviceKeeper_def checkAccessOrigin_def ret_def)
    then show ?thesis using True by (simp add: checkBech32Address_world)
  next
    case False
    then show ?thesis
      using handleRequestSignMsg_origin_refused [where k = "serviceKeeper d" and msg = msg
          and ?w1.0 = w and e = OriginNotAllowedError and env = env and w = w and d = d]
      by (simp add: serviceKeeper_def checkAccessOrigin_def throw_def)
  qed
  with r show ?thesis by simp
qed

theorem checkBech32Address_guards_signing_witness:
  "fst (checkBech32Address cosmosDeps ''cosmoshub-4'' ''cosmos1ppp'' cosmosWorld)
     = Inl AddressMismatchError
   \<and> handleRequestSignMsg cosmosDeps (serviceKeeper cosmosDeps) extEnv
       \<lparr>sign_chainId = ''cosmoshub-4'', bech32Address = ''cosmos1ppp'',
        messageHex = ''0110'', sign_id = ''1'', sign_openPopup = False,
        sign_skipApprove = True, sign_origin = ''chrome-extension://keplr''\<rparr> cosmosWorld
     = (Inl AddressMismatchError, cosmosWorld)"
proof -
  let ?key = "\<lparr>pubKey = [118, 7, 9], address = [118, 7, 9]\<rparr>"
  let ?ci = "\<lparr>bech32PrefixAccAddr = ''cosmos'', chainCoinType = 118\<rparr>"
  let ?msg = "\<lparr>sign_chainId = ''cosmoshub-4'', bech32Address = ''cosmos1ppp'',
              messageHex = ''0110'', sign_id = ''1'', sign_openPopup = False,
              sign_skipApprove = True, sign_origin = ''chrome-extension://keplr''\<rparr>"
  have k: "fst (getKey cosmosDeps (sign_chainId ?msg) cosmosWorld) = Inr ?key"
    by (simp add: getKey_def getChainCoinType_def getChainInfo_def bindE_def ret_def
        readRing_def KeyRing_getKey_def activeKeyStore_def resolveCoinType_def
        cosmosDeps_def cosmosWorld_def cosmosStore_def)
  have c: "chains cosmosDeps (sign_chainId ?msg) = Some ?ci"
    by (simp add: cosmosDeps_def)
  have t: "toBech32 cosmosDeps (address ?key) (bech32PrefixAccAddr ?ci) = ''cosmos1qpp''"
    by (simp add: cosmosDeps_def)
  have o: "isAllowed cosmosDeps (extensionBaseURL extEnv) (sign_chainId ?msg) (sign_origin ?msg)"
    by (simp add: cosmosDeps_def extEnv_def)
  show ?thesis
    using checkBech32Address_guards_signing [OF k c, of extEnv] t o
    by simp
qed

section \<open>The origin check of the handlers\<close>

lemma handleRequestTxBuilderConfigMsg_pending:
  assumes "isAllowed d (extensionBaseURL env) (cfgChainId (config msg)) (txc_origin msg)"
    and "\<not> txc_skipApprove msg"
  shows "trace (snd (handleRequestTxBuilderConfigMsg (serviceKeeper d) env msg w)) =
           trace w @ [WaitApprove ''/fee'' RequestTxBuilderConfigMsg_type (ConfigPayload (config msg))]"
  using assms
  by (simp add: handleRequestTxBuilderConfigMsg_def serviceKeeper_def checkAccessOrigin_def
      bindE_ret requestTxBuilderConfig_def bindE_def waitApprove_def ret_def throw_def
      split: prod.splits decision.splits option.splits sum.splits)

lemma handleRequestSignMsg_pending:
  assumes "isAllowed d (extensionBaseURL env) (sign_chainId msg) (sign_origin msg)"
    and "fst (checkBech32Address d (sign_chainId msg) (bech32Address msg) w) = Inr ()"
    and "\<not> sign_skipApprove msg"
  shows "\<exists>rest. trace (snd (handleRequestSignMsg d (serviceKeeper d) env msg w)) =
           trace w @ WaitApprove ''/sign'' RequestSignMsg_type
                       (SignPayload (sign_chainId msg) (toHex d (fromHex d (messageHex msg))))
                     # rest"
proof -
  have c: "checkBech32Address d (sign_chainId msg) (bech32Address msg) w = (Inr (), w)"
    using assms(2) checkBech32Address_world [of d "sign_chainId msg" "bech32Address msg" w]
    by (cases "checkBech32Address d (sign_chainId msg) (bech32Address msg) w") simp
  show ?thesis
    using assms(1,3) c
    by (auto simp add: handleRequestSignMsg_def serviceKeeper_def checkAccessOrigin_def
        requestSign_def bindE_def waitApprove_def ret_def throw_def getChainCoinType_def
        getChainInfo_def keyRing_sign_def
        split: prod.splits decision.splits option.splits sum.splits)
qed

text \<open>
  Claim C3. In the handlers of request-sign and request-tx-config the origin-permission
  check comes first: if the origin is not allowed for the chain, the handler throws the
  error of the check and the world is unchanged, so no pending request is recorded (and
  nothing is signed).
\<close>

theorem origin_check_before_pending:
  "(\<not> isAllowed d (extensionBaseURL env) (sign_chainId smsg) (sign_origin smsg) \<longrightarrow>
      handleRequestSignMsg d (serviceKeeper d) env smsg w = (Inl OriginNotAllowedError, w))
   \<and> (\<not> isAllowed d (extensionBaseURL env) (cfgChainId (config tmsg)) (txc_origin tmsg) \<longrightarrow>
      handleRequestTxBuilderConfigMsg (serviceKeeper d) env tmsg w
        = (Inl OriginNotAllowedError, w))"
proof (intro conjI impI)
  assume "\<not> isAllowed d (extensionBaseURL env) (sign_chainId smsg) (sign_origin smsg)"
  then have "keeper_checkAccessOrigin (serviceKeeper d) (extensionBaseURL env)
               (sign_chainId smsg) (sign_origin smsg) w = (Inl OriginNotAllowedError, w)"
    by (simp add: serviceKeeper_def checkAccessOrigin_def throw_def)
  then show "handleRequestSignMsg d (serviceKeeper d) env smsg w = (Inl OriginNotAllowedError, w)"
    by (rule handleRequestSignMsg_origin_refused)
next
  assume "\<not> isAllowed d (extensionBaseURL env) (cfgChainId (config tmsg)) (txc_origin tmsg)"
  then have "keeper_checkAccessOrigin (serviceKeeper d) (extensionBaseURL env)
               (cfgChainId (config tmsg)) (txc_origin tmsg) w = (Inl OriginNotAllowedError, w)"
    by (simp add: serviceKeeper_def checkAccessOrigin_def throw_def)
  then show "handleRequestTxBuilderConfigMsg (serviceKeeper d) env tmsg w
               = (Inl OriginNotAllowedError, w)"
    by (rule handleRequestTxBuilderConfigMsg_origin_refused)
qed

theorem origin_check_before_pending_witness:
  "handleRequestSignMsg cosmosDeps (serviceKeeper cosmosDeps) extEnv
     \<lparr>sign_chainId = ''cosmoshub-4'', bech32Address = ''cosmos1qpp'',
      messageHex = ''0110'', sign_id = ''1'', sign_openPopup = True,
      sign_skipApprove = False, sign_origin = ''https://evil.example''\<rparr> cosmosWorld
     = (Inl OriginNotAllowedError, cosmosWorld)
   \<and> handleRequestTxBuilderConfigMsg (serviceKeeper cosmosDeps) extEnv
       \<lparr>config = \<lparr>cfgChainId = ''cosmoshub-4'', cfgGas = ''200000'', cfgMemo = ''memo'',
                  cfgFee = ''1000uatom''\<rparr>,
        txc_id = ''2'', txc_openPopup = True, txc_skipApprove = False,
        txc_origin = ''https://evil.example''\<rparr> cosmosWorld
     = (Inl OriginNotAllowedError, cosmosWorld)
   \<and> trace cosmosWorld = []"
  using origin_check_before_pending [where d = cosmosDeps and env = extEnv and w = cosmosWorld
     and smsg = "\<lparr>sign_chainId = ''cosmoshub-4'', bech32Address = ''cosmos1qpp'',
      messageHex = ''0110'', sign_id = ''1'', sign_openPopup = True,
      sign_skipApprove = False, sign_origin = ''https://evil.example''\<rparr>"
     and tmsg = "\<lparr>config = \<lparr>cfgChainId = ''cosmoshub-4'', cfgGas = ''200000'', cfgMemo = ''memo'',
                  cfgFee = ''1000uatom''\<rparr>,
        txc_id = ''2'', txc_openPopup = True, txc_skipApprove = False,
        txc_origin = ''https://evil.example''\<rparr>"]
  by (simp add: cosmosDeps_def extEnv_def cosmosWorld_def)

section \<open>Requests that skip the approval\<close>

text \<open>
  Claim C4. With \<open>skipApprove\<close> set, \<open>requestTxBuilderConfig\<close> returns the submitted
  config and leaves the world unchanged, and \<open>requestSign\<close> goes straight to the signing
  step: its result is that of \<open>KeyRing.sign\<close> with the chain's coin type, and the only
  new event is that signing step. Neither consults the interaction collaborator: the
  results do not depend on the user behind it.
\<close>

theorem skipApprove_resolves_immediately:
  "requestTxBuilderConfig d env cfg True w = (Inr (ConfigPayload cfg), w)
   \<and> requestSign d env c message True w =
       (case chains d c of
          None \<Rightarrow> (Inl ChainUnknownError, w)
        | Some ci \<Rightarrow> (KeyRing_sign d c (chainCoinType ci) message (keyRing w),
                      w\<lparr>trace := trace w @ [Sign c (chainCoinType ci) message]\<rparr>))
   \<and> requestTxBuilderConfig (d\<lparr>user := u\<rparr>) env cfg True w
       = requestTxBuilderConfig d env cfg True w
   \<and> requestSign (d\<lparr>user := u\<rparr>) env c message True w = requestSign d env c message True w"
  by (simp add: requestTxBuilderConfig_def requestSign_def ret_def getChainCoinType_def
      getChainInfo_def bindE_def throw_def keyRing_sign_def KeyRing_sign_def
      split: option.splits)

theorem skipApprove_resolves_immediately_witness:
  "requestTxBuilderConfig cosmosDeps extEnv
     \<lparr>cfgChainId = ''cosmoshub-4'', cfgGas = ''200000'', cfgMemo = ''hello'',
      cfgFee = ''1000uatom''\<rparr> True cosmosWorld
     = (Inr (ConfigPayload \<lparr>cfgChainId = ''cosmoshub-4'', cfgGas = ''200000'',
               cfgMemo = ''hello'', cfgFee = ''1000uatom''\<rparr>), cosmosWorld)
   \<and> requestSign cosmosDeps extEnv ''cosmoshub-4'' [1, 0] True cosmosWorld
     = (Inr [118, 7, 9, 1, 0], cosmosWorld\<lparr>trace := [Sign ''cosmoshub-4'' 118 [1, 0]]\<rparr>)"
  using skipApprove_resolves_immediately [where d = cosmosDeps and env = extEnv
      and cfg = "\<lparr>cfgChainId = ''cosmoshub-4'', cfgGas = ''200000'', cfgMemo = ''hello'',
                  cfgFee = ''1000uatom''\<rparr>"
      and w = cosmosWorld and c = "''cosmoshub-4''" and message = "[1, 0]" and u = cosmosUser]
  by (simp add: cosmosDeps_def cosmosWorld_def cosmosStore_def KeyRing_sign_def
      activeKeyStore_def resolveCoinType_def)

section \<open>Approved transaction configs\<close>

text \<open>
  Claim C5. When the interaction collaborator approves a pending tx-config request,
  \<open>requestTxBuilderConfig\<close> returns exactly the payload it resolved with; when it
  resolves with an absent payload, \<open>requestTxBuilderConfig\<close> fails.
\<close>

theorem approved_config_is_returned:
  assumes "user d (''/fee'', RequestTxBuilderConfigMsg_type, ConfigPayload cfg) (keyRing w)
             = (Approved r, kr)"
  shows "fst (requestTxBuilderConfig d env cfg False w)
           = (case r of Some p \<Rightarrow> Inr p | None \<Rightarrow> Inl NullConfigError)"
  using assms
  by (simp add: requestTxBuilderConfig_def bindE_def waitApprove_def ret_def throw_def
      split: option.splits)

theorem approved_config_is_returned_witness:
  "fst (requestTxBuilderConfig cosmosDeps extEnv
          \<lparr>cfgChainId = ''cosmoshub-4'', cfgGas = ''200000'', cfgMemo = ''hello'',
           cfgFee = ''1000uatom''\<rparr> False cosmosWorld)
     = Inr (ConfigPayload \<lparr>cfgChainId = ''cosmoshub-4'', cfgGas = ''200000'',
              cfgMemo = ''hello'', cfgFee = ''5000uatom''\<rparr>)
   \<and> fst (requestTxBuilderConfig (cosmosDeps\<lparr>user := \<lambda>req kr. (Approved None, kr)\<rparr>) extEnv
          \<lparr>cfgChainId = ''cosmoshub-4'', cfgGas = ''200000'', cfgMemo = ''hello'',
           cfgFee = ''1000uatom''\<rparr> False cosmosWorld)
     = Inl NullConfigError"
proof -
  let ?cfg = "\<lparr>cfgChainId = ''cosmoshub-4'', cfgGas = ''200000'', cfgMemo = ''hello'',
           cfgFee = ''1000uatom''\<rparr>"
  have a: "user cosmosDeps (''/fee'', RequestTxBuilderConfigMsg_type, ConfigPayload ?cfg)
             (keyRing cosmosWorld)
           = (Approved (Some (ConfigPayload (?cfg\<lparr>cfgFee := ''5000uatom''\<rparr>))), keyRing cosmosWorld)"
    by (simp add: cosmosDeps_def cosmosUser_def)
  have b: "user (cosmosDeps\<lparr>user := \<lambda>req kr. (Approved None, kr)\<rparr>)
             (''/fee'', RequestTxBuilderConfigMsg_type, ConfigPayload ?cfg) (keyRing cosmosWorld)
           = (Approved None, keyRing cosmosWorld)"
    by simp
  show ?thesis
    using approved_config_is_returned [OF a, of extEnv] approved_config_is_returned [OF b, of extEnv]
    by simp
qed

section \<open>Enabling the key ring\<close>

lemma enable_EMPTY:
  "status (keyRing w) = EMPTY \<Longrightarrow> enable d env w = (Inl NoKeyError, w)"
  by (simp add: enable_def throw_def)

lemma enable_UNLOCKED:
  "status (keyRing w) = UNLOCKED \<Longrightarrow> enable d env w = (Inr UNLOCKED, w)"
  by (simp add: enable_def ret_def)

lemma enable_LOCKED:
  "status (keyRing w) = LOCKED \<Longrightarrow>
     enable d env w =
       bindE (waitApprove d env ''/unlock'' EnableKeyRingMsg_type EmptyPayload)
         (\<lambda>_ w2. (Inr (status (keyRing w2)), w2)) w"
  by (simp add: enable_def ret_def)

lemma enable_LOCKED_trace:
  "status (keyRing w) = LOCKED \<Longrightarrow>
     trace (snd (enable d env w))
       = trace w @ [WaitApprove ''/unlock'' EnableKeyRingMsg_type EmptyPayload]"
  by (simp add: enable_LOCKED bindE_def waitApprove_def
      split: prod.splits decision.splits sum.splits)

lemma enable_NOTLOADED:
  "status (keyRing w) = NOTLOADED \<Longrightarrow>
     enable d env w =
       (let w1 = w\<lparr>keyRing := KeyRing_restore (keyRing w)\<rparr>
        in if status (keyRing w1) = LOCKED
           then bindE (waitApprove d env ''/unlock'' EnableKeyRingMsg_type EmptyPayload)
                  (\<lambda>_ w2. (Inr (status (keyRing w2)), w2)) w1
           else (Inr (status (keyRing w1)), w1))"
  by (simp add: enable_def ret_def Let_def)

lemma enable_not_EMPTY_when_loaded:
  assumes "status (keyRing w) \<noteq> NOTLOADED" and "status (keyRing w) \<noteq> LOCKED"
    and "fst (enable d env w) = Inr st"
  shows "st \<noteq> EMPTY"
  using assms by (auto simp add: enable_def ret_def throw_def split: if_splits)

lemma enable_NOTLOADED_nothing_persisted:
  assumes "status (keyRing w) = NOTLOADED" and "fst (kvStore (keyRing w)) = []"
  shows "enable d env w = (Inr EMPTY, w\<lparr>keyRing := KeyRing_restore (keyRing w)\<rparr>)"
  using assms by (simp add: enable_NOTLOADED KeyRing_restore_def)

lemma handleEnableKeyRingMsg_NOTLOADED_nothing_persisted:
  assumes "isAllowed d (extensionBaseURL env) (enable_chainId msg) (enable_origin msg)"
    and "chains d (enable_chainId msg) = Some ci"
    and "status (keyRing w) = NOTLOADED" and "fst (kvStore (keyRing w)) = []"
  shows "fst (handleEnableKeyRingMsg (serviceKeeper d) env msg w) = Inr EMPTY"
  using assms
  by (simp add: handleEnableKeyRingMsg_def serviceKeeper_def checkAccessOrigin_def
      getChainInfo_Some bindE_ret enable_NOTLOADED_nothing_persisted)

text \<open>
  Claim C2. \<open>enable\<close> follows the state machine case by case (the lemmas above): it
  fails on EMPTY, restores on NOTLOADED, waits for the unlock interaction on LOCKED and
  returns the status on UNLOCKED. But it does not always throw or return a status other
  than EMPTY: the check for EMPTY comes before the restore, so on a ring that is not yet
  loaded and has no persisted record, \<open>enable\<close> restores, finds the ring EMPTY and
  returns EMPTY without an error.
\<close>

theorem enable_returns_EMPTY_after_restore:
  "fst (enable d env
          \<lparr>keyRing = \<lparr>status = NOTLOADED, multiKeyStore = [], selectedIndex = 0,
                       kvStore = ([], 0)\<rparr>,
           trace = []\<rparr>) = Inr EMPTY"
  by (simp add: enable_def KeyRing_restore_def ret_def)

section \<open>The coin type of a key store\<close>

lemma activeKeyStore_update:
  assumes "activeKeyStore kr = Some ks"
  shows "activeKeyStore (persist (kr\<lparr>multiKeyStore := (multiKeyStore kr)[selectedIndex kr := ks']\<rparr>))
           = Some ks'"
  using assms by (simp add: activeKeyStore_def persist_def split: if_splits)

text \<open>
  Claim C6. For a key store with no coin type set for the chain, a first
  \<open>setKeyStoreCoinType\<close> succeeds and a second one for the same store and chain fails
  and changes nothing; and \<open>getKey\<close> before any override derives the key with the
  chain's default coin type.
\<close>

theorem setKeyStoreCoinType_set_once:
  assumes "activeKeyStore (keyRing w) = Some ks" and "coinTypeForChain ks c = None"
  shows "(\<exists>w1. setKeyStoreCoinType c t1 w = (Inr (), w1)
             \<and> setKeyStoreCoinType c t2 w1 = (Inl CoinTypeAlreadySetError, w1))
       \<and> (status (keyRing w) = UNLOCKED \<and> chains d c = Some ci \<longrightarrow>
            fst (getKey d c w) = Inr (deriveKey d ks (chainCoinType ci)))"
proof (intro conjI impI)
  let ?kr1 = "persist ((keyRing w)\<lparr>multiKeyStore :=
                 (multiKeyStore (keyRing w))[selectedIndex (keyRing w) :=
                    ks\<lparr>coinTypeForChain := (coinTypeForChain ks)(c \<mapsto> t1)\<rparr>]\<rparr>)"
  have first: "setKeyStoreCoinType c t1 w = (Inr (), w\<lparr>keyRing := ?kr1\<rparr>)"
    using assms
    by (simp add: setKeyStoreCoinType_def updateRing_def KeyRing_setKeyStoreCoinType_def)
  have "activeKeyStore ?kr1 = Some (ks\<lparr>coinTypeForChain := (coinTypeForChain ks)(c \<mapsto> t1)\<rparr>)"
    using assms(1) by (rule activeKeyStore_update)
  then have "setKeyStoreCoinType c t2 (w\<lparr>keyRing := ?kr1\<rparr>)
               = (Inl CoinTypeAlreadySetError, w\<lparr>keyRing := ?kr1\<rparr>)"
    by (simp add: setKeyStoreCoinType_def updateRing_def KeyRing_setKeyStoreCoinType_def)
  with first show "\<exists>w1. setKeyStoreCoinType c t1 w = (Inr (), w1)
             \<and> setKeyStoreCoinType c t2 w1 = (Inl CoinTypeAlreadySetError, w1)"
    by blast
next
  assume "status (keyRing w) = UNLOCKED \<and> chains d c = Some ci"
  then show "fst (getKey d c w) = Inr (deriveKey d ks (chainCoinType ci))"
    using assms
    by (simp add: getKey_def getChainCoinType_def getChainInfo_Some bindE_ret readRing_def
        KeyRing_getKey_def resolveCoinType_def)
qed

theorem setKeyStoreCoinType_set_once_witness:
  "(\<exists>w1. setKeyStoreCoinType ''cosmoshub-4'' 529 cosmosWorld = (Inr (), w1)
         \<and> setKeyStoreCoinType ''cosmoshub-4'' 118 w1 = (Inl CoinTypeAlreadySetError, w1))
   \<and> fst (getKey cosmosDeps ''cosmoshub-4'' cosmosWorld)
       = Inr \<lparr>pubKey = [118, 7, 9], address = [118, 7, 9]\<rparr>"
proof -
  have a: "activeKeyStore (keyRing cosmosWorld) = Some cosmosStore"
    by (simp add: activeKeyStore_def cosmosWorld_def)
  have b: "coinTypeForChain cosmosStore ''cosmoshub-4'' = None"
    by (simp add: cosmosStore_def)
  show ?thesis
    using setKeyStoreCoinType_set_once [OF a b, of 529 118 cosmosDeps
        "\<lparr>bech32PrefixAccAddr = ''cosmos'', chainCoinType = 118\<rparr>"]
    by (simp add: cosmosDeps_def cosmosWorld_def cosmosStore_def)
qed

section \<open>Deleting a key store\<close>

lemma KeyRing_deleteKeyRing_valid:
  assumes "selectionValid kr" and "KeyRing_deleteKeyRing index password kr = Inr kr'"
  shows "selectionValid kr'"
  using assms
  by (auto simp add: KeyRing_deleteKeyRing_def selectionValid_def persist_def Let_def
      split: if_splits)

lemma deleteKeyRing_failed:
  "fst (deleteKeyRing index password w) = Inl e \<Longrightarrow> snd (deleteKeyRing index password w) = w"
  by (simp add: deleteKeyRing_def bindE_def updateRing_def ret_def split: sum.splits)

lemma deleteKeyRing_done:
  "deleteKeyRing index password w =
     (case KeyRing_deleteKeyRing index password (keyRing w) of
        Inl e \<Rightarrow> (Inl e, w)
      | Inr kr \<Rightarrow> (Inr (KeyRing_getMultiKeyStoreInfo kr, status kr), w\<lparr>keyRing := kr\<rparr>))"
  by (simp add: deleteKeyRing_def bindE_def updateRing_def ret_def split: sum.splits)

text \<open>
  Claim C7. \<open>deleteKeyRing\<close> keeps the invariant of the MultiKeyStore, whether
  it succeeds or fails: afterwards the selected index refers to an existing record
  whenever the collection is not empty. A deletion that succeeds removes one record;
  deleting the selected record of a collection of more than one re-selects a valid
  index; deleting the last record leaves the ring EMPTY, and EMPTY is the status returned.
\<close>

theorem deleteKeyRing_keeps_selection_valid:
  assumes "selectionValid (keyRing w)"
  shows "selectionValid (keyRing (snd (deleteKeyRing index password w)))
       \<and> (fst (deleteKeyRing index password w) = Inr (info, st) \<longrightarrow>
            length (multiKeyStore (keyRing (snd (deleteKeyRing index password w))))
              = length (multiKeyStore (keyRing w)) - 1
          \<and> (index = selectedIndex (keyRing w) \<and> 1 < length (multiKeyStore (keyRing w)) \<longrightarrow>
               selectedIndex (keyRing (snd (deleteKeyRing index password w)))
                 < length (multiKeyStore (keyRing (snd (deleteKeyRing index password w)))))
          \<and> (length (multiKeyStore (keyRing w)) = 1 \<longrightarrow>
               st = EMPTY \<and> status (keyRing (snd (deleteKeyRing index password w))) = EMPTY
               \<and> multiKeyStore (keyRing (snd (deleteKeyRing index password w))) = []))"
proof (cases "KeyRing_deleteKeyRing index password (keyRing w)")
  case (Inl e)
  then show ?thesis using assms by (simp add: deleteKeyRing_done)
next
  case (Inr kr')
  have v: "selectionValid kr'"
    using assms Inr by (rule KeyRing_deleteKeyRing_valid)
  have len: "length (multiKeyStore kr') = length (multiKeyStore (keyRing w)) - 1"
    using Inr
    by (auto simp add: KeyRing_deleteKeyRing_def persist_def Let_def split: if_splits)
  have sel: "selectedIndex kr' < length (multiKeyStore kr')"
    if "index = selectedIndex (keyRing w)" and "1 < length (multiKeyStore (keyRing w))"
    using Inr that
    by (auto simp add: KeyRing_deleteKeyRing_def persist_def Let_def split: if_splits)
  have last: "status kr' = EMPTY \<and> multiKeyStore kr' = []"
    if "length (multiKeyStore (keyRing w)) = 1"
    using Inr that
    by (auto simp add: KeyRing_deleteKeyRing_def persist_def Let_def split: if_splits)
  show ?thesis
    using Inr v len sel last by (auto simp add: deleteKeyRing_done)
qed

theorem deleteKeyRing_keeps_selection_valid_witness:
  "selectionValid (keyRing cosmosWorld)
   \<and> fst (deleteKeyRing 0 ''pw1'' cosmosWorld) = Inr ([], EMPTY)
   \<and> selectionValid (keyRing (snd (deleteKeyRing 0 ''pw1'' cosmosWorld)))
   \<and> status (keyRing (snd (deleteKeyRing 0 ''pw1'' cosmosWorld))) = EMPTY
   \<and> selectionValid (keyRing twoStoreWorld)
   \<and> fst (deleteKeyRing 1 ''pw1'' twoStoreWorld) = Inr ([(''main'', True)], UNLOCKED)
   \<and> selectionValid (keyRing (snd (deleteKeyRing 1 ''pw1'' twoStoreWorld)))
   \<and> selectedIndex (keyRing (snd (deleteKeyRing 1 ''pw1'' twoStoreWorld)))
       < length (multiKeyStore (keyRing (snd (deleteKeyRing 1 ''pw1'' twoStoreWorld))))"
proof -
  have v: "selectionValid (keyRing cosmosWorld)"
    by (simp add: selectionValid_def cosmosWorld_def)
  have r: "fst (deleteKeyRing 0 ''pw1'' cosmosWorld) = Inr ([], EMPTY)"
    by (simp add: deleteKeyRing_done KeyRing_deleteKeyRing_def persist_def
        KeyRing_getMultiKeyStoreInfo_def cosmosWorld_def cosmosStore_def)
  have v2: "selectionValid (keyRing twoStoreWorld)"
    by (simp add: selectionValid_def twoStoreWorld_def)
  have r2: "fst (deleteKeyRing 1 ''pw1'' twoStoreWorld) = Inr ([(''main'', True)], UNLOCKED)"
    by (simp add: deleteKeyRing_done KeyRing_deleteKeyRing_def persist_def
        KeyRing_getMultiKeyStoreInfo_def twoStoreWorld_def cosmosStore_def secondStore_def
        Let_def)
  show ?thesis
    using deleteKeyRing_keeps_selection_valid [OF v, of 0 "''pw1''" "[]" EMPTY]
      deleteKeyRing_keeps_selection_valid [OF v2, of 1 "''pw1''" "[(''main'', True)]" UNLOCKED]
      v r v2 r2
    by (simp add: cosmosWorld_def twoStoreWorld_def)
qed

section \<open>The selectable derivation paths\<close>

lemma selectablesLoop_unlocked:
  assumes "status (keyRing w) = UNLOCKED" and "activeKeyStore (keyRing w) = Some ks"
  shows "selectablesLoop d ci result paths w =
           (Inr (result @ map (\<lambda>path. (path, toBech32 d (address (deriveKey d ks (coinType path)))
                                            (bech32PrefixAccAddr ci))) paths), w)"
  using assms
  by (induction paths arbitrary: result)
     (simp_all add: ret_def bindE_def readRing_def KeyRing_getKeyFromCoinType_def)

text \<open>
  Claim C8. If the coin type of the chain is already set for the active key store,
  \<open>getKeyStoreBIP44Selectables\<close> returns the empty list whatever the paths are.
  Otherwise, for a known chain and an unlocked ring, it returns one entry per requested
  path, in the order of the paths, each with the bech32 address of the key derived for
  the path's coin type, under the chain's account prefix.
\<close>

theorem getKeyStoreBIP44Selectables_entries:
  "(fst (isKeyStoreCoinTypeSet c w) = Inr True \<longrightarrow>
      getKeyStoreBIP44Selectables d c paths w = (Inr [], w))
   \<and> (fst (isKeyStoreCoinTypeSet c w) = Inr False \<and> chains d c = Some ci
        \<and> status (keyRing w) = UNLOCKED \<and> activeKeyStore (keyRing w) = Some ks \<longrightarrow>
      getKeyStoreBIP44Selectables d c paths w =
        (Inr (map (\<lambda>path. (path, toBech32 d (address (deriveKey d ks (coinType path)))
                                   (bech32PrefixAccAddr ci))) paths), w))"
proof (intro conjI impI)
  assume "fst (isKeyStoreCoinTypeSet c w) = Inr True"
  then have "isKeyStoreCoinTypeSet c w = (Inr True, w)"
    by (simp add: isKeyStoreCoinTypeSet_def readRing_def)
  then show "getKeyStoreBIP44Selectables d c paths w = (Inr [], w)"
    by (simp add: getKeyStoreBIP44Selectables_def bindE_Inr ret_def)
next
  assume a: "fst (isKeyStoreCoinTypeSet c w) = Inr False \<and> chains d c = Some ci
        \<and> status (keyRing w) = UNLOCKED \<and> activeKeyStore (keyRing w) = Some ks"
  then have "isKeyStoreCoinTypeSet c w = (Inr False, w)"
    by (simp add: isKeyStoreCoinTypeSet_def readRing_def)
  then have "getKeyStoreBIP44Selectables d c paths w = selectablesLoop d ci [] paths w"
    using a by (simp add: getKeyStoreBIP44Selectables_def bindE_def getChainInfo_def ret_def)
  then show "getKeyStoreBIP44Selectables d c paths w =
        (Inr (map (\<lambda>path. (path, toBech32 d (address (deriveKey d ks (coinType path)))
                                   (bech32PrefixAccAddr ci))) paths), w)"
    using a by (simp add: selectablesLoop_unlocked)
qed

theorem getKeyStoreBIP44Selectables_entries_witness:
  "getKeyStoreBIP44Selectables cosmosDeps ''cosmoshub-4''
     [\<lparr>coinType = 118\<rparr>, \<lparr>coinType = 529\<rparr>] cosmosWorld
     = (Inr [(\<lparr>coinType = 118\<rparr>, ''cosmos1qpp''), (\<lparr>coinType = 529\<rparr>, ''cosmos1ppp'')],
        cosmosWorld)
   \<and> getKeyStoreBIP44Selectables cosmosDeps ''cosmoshub-4''
       [\<lparr>coinType = 118\<rparr>, \<lparr>coinType = 529\<rparr>]
       (snd (setKeyStoreCoinType ''cosmoshub-4'' 529 cosmosWorld))
     = (Inr [], snd (setKeyStoreCoinType ''cosmoshub-4'' 529 cosmosWorld))"
proof -
  let ?w1 = "snd (setKeyStoreCoinType ''cosmoshub-4'' 529 cosmosWorld)"
  have a: "fst (isKeyStoreCoinTypeSet ''cosmoshub-4'' cosmosWorld) = Inr False"
    by (simp add: isKeyStoreCoinTypeSet_def readRing_def KeyRing_isKeyStoreCoinTypeSet_def
        activeKeyStore_def cosmosWorld_def cosmosStore_def)
  have b: "chains cosmosDeps ''cosmoshub-4''
             = Some \<lparr>bech32PrefixAccAddr = ''cosmos'', chainCoinType = 118\<rparr>"
    by (simp add: cosmosDeps_def)
  have c: "status (keyRing cosmosWorld) = UNLOCKED"
    by (simp add: cosmosWorld_def)
  have e: "activeKeyStore (keyRing cosmosWorld) = Some cosmosStore"
    by (simp add: activeKeyStore_def cosmosWorld_def)
  have f: "fst (isKeyStoreCoinTypeSet ''cosmoshub-4'' ?w1) = Inr True"
    by (simp add: isKeyStoreCoinTypeSet_def readRing_def KeyRing_isKeyStoreCoinTypeSet_def
        setKeyStoreCoinType_def updateRing_def KeyRing_setKeyStoreCoinType_def persist_def
        activeKeyStore_def cosmosWorld_def cosmosStore_def)
  show ?thesis
    using getKeyStoreBIP44Selectables_entries [of "''cosmoshub-4''" cosmosWorld cosmosDeps
        "[\<lparr>coinType = 118\<rparr>, \<lparr>coinType = 529\<rparr>]"
        "\<lparr>bech32PrefixAccAddr = ''cosmos'', chainCoinType = 118\<rparr>" cosmosStore]
      getKeyStoreBIP44Selectables_entries [of "''cosmoshub-4''" ?w1 cosmosDeps
        "[\<lparr>coinType = 118\<rparr>, \<lparr>coinType = 529\<rparr>]"
        "\<lparr>bech32PrefixAccAddr = ''cosmos'', chainCoinType = 118\<rparr>" cosmosStore]
      a b c e f
    by (simp add: cosmosDeps_def cosmosStore_def)
qed

section \<open>The fee of a transaction\<close>






section \<open>Broadcasting messages\<close>

lemma broadcastMsgs_refused:
  assumes "walletStatus s \<noteq> Loaded \<or> msgs = []"
  shows "broadcastMsgs env msgs fee memo mode s =
           (Inl (if walletStatus s \<noteq> Loaded then WalletNotLoadedError (walletStatus s)
                 else NoMsgError), s)"
  using assms by (auto simp add: broadcastMsgs_def throw_def)

lemma sendMsgs_failed:
  assumes "fst (broadcastMsgs env msgs fee memo (broadcastMode s) (s\<lparr>isSendingMsg := Some ty\<rparr>))
             = Inl e"
  shows "sendMsgs env ty msgs fee memo s =
           (Inl e, (snd (broadcastMsgs env msgs fee memo (broadcastMode s)
                           (s\<lparr>isSendingMsg := Some ty\<rparr>)))\<lparr>isSendingMsg := None\<rparr>)"
  using assms
  by (cases "broadcastMsgs env msgs fee memo (broadcastMode s) (s\<lparr>isSendingMsg := Some ty\<rparr>)")
     (simp add: sendMsgs_def Let_def)

text \<open>
  Claim C10. \<open>broadcastMsgs\<close> fails when the wallet status is not Loaded or the list
  of messages is empty, with the store unchanged: no account is fetched, no document is
  built or signed, nothing is sent. And when \<open>broadcastMsgs\<close> fails, \<open>sendMsgs\<close>
  fails with the same error and leaves \<open>isSendingMsg\<close> false.
\<close>

theorem broadcastMsgs_guards_and_sendMsgs_reset:
  "(walletStatus s \<noteq> Loaded \<or> msgs = [] \<longrightarrow>
      broadcastMsgs env msgs fee memo mode s =
        (Inl (if walletStatus s \<noteq> Loaded then WalletNotLoadedError (walletStatus s)
              else NoMsgError), s))
   \<and> (fst (broadcastMsgs env msgs fee memo (broadcastMode s) (s\<lparr>isSendingMsg := Some ty\<rparr>))
         = Inl e \<longrightarrow>
        fst (sendMsgs env ty msgs fee memo s) = Inl e
        \<and> isSendingMsg (snd (sendMsgs env ty msgs fee memo s)) = None)"
  using broadcastMsgs_refused [of s msgs env fee memo mode] sendMsgs_failed [of env msgs fee memo s ty e]
  by simp

theorem broadcastMsgs_guards_and_sendMsgs_reset_witness:
  "broadcastMsgs demoAccountEnv [demoMsg] demoFee ''memo'' sync (demoAccount\<lparr>walletStatus := Loading\<rparr>)
     = (Inl (WalletNotLoadedError Loading), demoAccount\<lparr>walletStatus := Loading\<rparr>)
   \<and> broadcastMsgs demoAccountEnv [] demoFee ''memo'' sync demoAccount
     = (Inl NoMsgError, demoAccount)
   \<and> fst (sendMsgs demoAccountEnv ''send'' [demoMsg] demoFee ''memo'' demoAccount)
     = Inl UserRejectedError
   \<and> isSendingMsg (snd (sendMsgs demoAccountEnv ''send'' [demoMsg] demoFee ''memo'' demoAccount))
     = None"
proof -
  have f: "fst (broadcastMsgs demoAccountEnv [demoMsg] demoFee ''memo'' (broadcastMode demoAccount)
             (demoAccount\<lparr>isSendingMsg := Some ''send''\<rparr>)) = Inl UserRejectedError"
    by (simp add: broadcastMsgs_def bindE_def callOut_def demoAccountEnv_def demoAccount_def
        Let_def)
  show ?thesis
    using broadcastMsgs_guards_and_sendMsgs_reset
        [of "demoAccount\<lparr>walletStatus := Loading\<rparr>" "[demoMsg]" demoAccountEnv demoFee "''memo''" sync]
      broadcastMsgs_guards_and_sendMsgs_reset
        [of demoAccount "[]" demoAccountEnv demoFee "''memo''" sync]
      broadcastMsgs_guards_and_sendMsgs_reset
        [of demoAccount "[demoMsg]" demoAccountEnv demoFee "''memo''" sync "''send''" UserRejectedError]
      f
    by (simp add: demoAccount_def)
qed

end
